theory Spec2Isabelle
  imports Main "HOL-Library.Sublist"
begin

section \<open>The command agent: state model and command interpreter\<close>

text \<open>
  A shallow embedding of \<^verbatim>\<open>src/agent-app/src/components/CommandAgent.tsx\<close>:
  the agent state, the helpers \<^verbatim>\<open>nextHeading\<close>, \<^verbatim>\<open>moveForward\<close>,
  \<^verbatim>\<open>clampEnergy\<close>, \<^verbatim>\<open>formatState\<close>, and the rule-based dispatcher
  \<^verbatim>\<open>interpretCommand\<close>.

  Conventions of the embedding.
  \<^item> A JavaScript string is a \<open>string\<close> (a list of 8-bit characters). The model is exact
    for ASCII input. The few non-ASCII characters of the response literals (curly quotes,
    the multiplication sign, the degree sign, the middle dot) are written as their UTF-8
    bytes. Characters beyond ASCII are neither white space nor letters with a case here,
    whereas \<^verbatim>\<open>trim\<close> and \<^verbatim>\<open>parseInt\<close> of the host language also strip the white space
    beyond ASCII (the no-break space, the byte order mark, the line and paragraph
    separators, the space separators). Where a statement would differ from the program
    on input with such white space, it carries the hypothesis \<open>asciiText\<close>: the input is
    ASCII.
  \<^item> A JavaScript number that holds an integer is an \<open>int\<close>; \<^verbatim>\<open>NaN\<close>, the only
    non-integer \<^verbatim>\<open>parseInt\<close> returns, is \<open>None\<close>. Every number that reaches the state
    from \<^verbatim>\<open>parseInt\<close> is first clamped to \<open>[0,100]\<close> or checked to lie in \<open>[0,6]\<close>,
    so the rounding of integers beyond \<open>2^53\<close> never shows.
\<close>

subsection \<open>String primitives of the host language\<close>

text \<open>The ASCII white space that \<^verbatim>\<open>String.prototype.trim\<close> and \<^verbatim>\<open>parseInt\<close> strip:
  space, tab, line feed, vertical tab, form feed, carriage return.\<close>

definition isWhiteSpace :: "char \<Rightarrow> bool" where
  "isWhiteSpace c \<longleftrightarrow>
     c = CHR '' '' \<or> c = CHR 0x09 \<or> c = CHR 0x0A \<or> c = CHR 0x0B \<or> c = CHR 0x0C \<or> c = CHR 0x0D"

text \<open>The text is ASCII: the code of every character is below 128, its eighth bit is
  clear. On such a text the white space above and the case mapping below are those of
  the host language.\<close>

definition asciiText :: "string \<Rightarrow> bool" where
  "asciiText s \<longleftrightarrow> list_all (\<lambda>c. \<not> digit7 c) s"

definition trimStart :: "string \<Rightarrow> string" where
  "trimStart s = dropWhile isWhiteSpace s"

definition trimEnd :: "string \<Rightarrow> string" where
  "trimEnd s = rev (dropWhile isWhiteSpace (rev s))"

definition trim :: "string \<Rightarrow> string" where
  "trim s = trimEnd (trimStart s)"

text \<open>\<^verbatim>\<open>toLowerCase\<close> and \<^verbatim>\<open>toUpperCase\<close> on the ASCII letters.\<close>

definition upperLetters :: string where
  "upperLetters = ''ABCDEFGHIJKLMNOPQRSTUVWXYZ''"

definition lowerLetters :: string where
  "lowerLetters = ''abcdefghijklmnopqrstuvwxyz''"

definition lowerChar :: "char \<Rightarrow> char" where
  "lowerChar c = (case map_of (zip upperLetters lowerLetters) c of Some d \<Rightarrow> d | None \<Rightarrow> c)"

definition upperChar :: "char \<Rightarrow> char" where
  "upperChar c = (case map_of (zip lowerLetters upperLetters) c of Some d \<Rightarrow> d | None \<Rightarrow> c)"

definition toLowerCase :: "string \<Rightarrow> string" where
  "toLowerCase s = map lowerChar s"

definition toUpperCase :: "string \<Rightarrow> string" where
  "toUpperCase s = map upperChar s"

definition startsWith :: "string \<Rightarrow> string \<Rightarrow> bool" where
  "startsWith s p \<longleftrightarrow> prefix p s"

text \<open>The position of the first occurrence of \<open>p\<close> in \<open>s\<close>; \<^verbatim>\<open>indexOf\<close> returns \<open>-1\<close>
  when there is none.\<close>

fun firstOccurrence :: "string \<Rightarrow> string \<Rightarrow> nat option" where
  "firstOccurrence p [] = (if p = [] then Some 0 else None)"
| "firstOccurrence p (c # cs) =
     (if prefix p (c # cs) then Some 0
      else (case firstOccurrence p cs of None \<Rightarrow> None | Some i \<Rightarrow> Some (Suc i)))"

definition indexOf :: "string \<Rightarrow> string \<Rightarrow> int" where
  "indexOf s p = (case firstOccurrence p s of None \<Rightarrow> - 1 | Some i \<Rightarrow> int i)"

definition includesStr :: "string \<Rightarrow> string \<Rightarrow> bool" where
  "includesStr s p \<longleftrightarrow> indexOf s p \<noteq> - 1"

text \<open>\<^verbatim>\<open>s.slice(start)\<close>: a negative start counts from the end.\<close>

definition slice :: "string \<Rightarrow> int \<Rightarrow> string" where
  "slice s start =
     (if start < 0 then drop (nat (max (int (length s) + start) 0)) s
      else drop (nat start) s)"

text \<open>\<^verbatim>\<open>s.replace(p, r)\<close> with a string pattern replaces the first occurrence only.\<close>

definition replaceFirst :: "string \<Rightarrow> string \<Rightarrow> string \<Rightarrow> string" where
  "replaceFirst s p r =
     (case firstOccurrence p s of
        None \<Rightarrow> s
      | Some i \<Rightarrow> take i s @ r @ drop (i + length p) s)"

text \<open>\<^verbatim>\<open>s.split(",")\<close> for a one-character separator: the empty string gives one
  empty part.\<close>

fun split :: "string \<Rightarrow> char \<Rightarrow> string list" where
  "split [] sep = [[]]"
| "split (c # cs) sep =
     (if c = sep then [] # split cs sep
      else (case split cs sep of
              [] \<Rightarrow> [[c]]
            | part # parts \<Rightarrow> (c # part) # parts))"

text \<open>\<^verbatim>\<open>Number.parseInt(s, 10)\<close>: leading white space is skipped, one sign is read, then
  the longest run of decimal digits; no digit at all gives \<^verbatim>\<open>NaN\<close>.\<close>

definition digitChars :: string where
  "digitChars = ''0123456789''"

definition isDigit :: "char \<Rightarrow> bool" where
  "isDigit c \<longleftrightarrow> c \<in> set digitChars"

definition digitValue :: "char \<Rightarrow> int" where
  "digitValue c = (case map_of (zip digitChars [0, 1, 2, 3, 4, 5, 6, 7, 8, 9]) c of
                     Some d \<Rightarrow> d | None \<Rightarrow> 0)"

definition digitsValue :: "string \<Rightarrow> int" where
  "digitsValue ds = foldl (\<lambda>acc c. 10 * acc + digitValue c) 0 ds"

definition parseInt :: "string \<Rightarrow> int option" where
  "parseInt s =
     (let t = trimStart s;
          sign = (if startsWith t ''-'' then - 1 else 1);
          u = (if startsWith t ''-'' \<or> startsWith t ''+'' then tl t else t);
          ds = takeWhile isDigit u
      in if ds = [] then None else Some (sign * digitsValue ds))"

text \<open>An integer in a template literal: its decimal digits, with a minus sign when
  negative.\<close>

fun natToString :: "nat \<Rightarrow> string" where
  "natToString n =
     (if n < 10 then [digitChars ! n]
      else natToString (n div 10) @ [digitChars ! (n mod 10)])"

definition numToString :: "int \<Rightarrow> string" where
  "numToString i = (if i < 0 then ''-'' @ natToString (nat (- i)) else natToString (nat i))"

subsection \<open>The agent state\<close>

datatype Heading = North | East | South | West

fun headingName :: "Heading \<Rightarrow> string" where
  "headingName North = ''north''"
| "headingName East = ''east''"
| "headingName South = ''south''"
| "headingName West = ''west''"

record AgentState =
  x :: int
  y :: int
  heading :: Heading
  energy :: int
  inventory :: "string list"
  "notes" :: "string list"

record CommandResult =
  response :: string
  nextState :: AgentState

definition GRID_SIZE :: int where
  "GRID_SIZE = 7"

definition headingOrder :: "Heading list" where
  "headingOrder = [North, East, South, West]"

datatype TurnDirection = TurnLeft | TurnRight

text \<open>\<^verbatim>\<open>Array.prototype.indexOf\<close>.\<close>

fun listIndexOf :: "'a list \<Rightarrow> 'a \<Rightarrow> int" where
  "listIndexOf [] v = - 1"
| "listIndexOf (h # t) v =
     (if h = v then 0 else (let r = listIndexOf t v in if r < 0 then - 1 else r + 1))"

definition nextHeading :: "Heading \<Rightarrow> TurnDirection \<Rightarrow> Heading" where
  "nextHeading current direction =
     (let index = listIndexOf headingOrder current;
          offset = (if direction = TurnLeft then - 1 else 1);
          nextIndex = (index + offset + int (length headingOrder)) mod int (length headingOrder)
      in headingOrder ! nat nextIndex)"

text \<open>\<^verbatim>\<open>moveForward\<close> returns the pair of the next coordinates.\<close>

definition moveForward :: "AgentState \<Rightarrow> int \<times> int" where
  "moveForward s =
     (case heading s of
        North \<Rightarrow> (x s, min (GRID_SIZE - 1) (y s + 1))
      | South \<Rightarrow> (x s, max 0 (y s - 1))
      | East \<Rightarrow> (min (GRID_SIZE - 1) (x s + 1), y s)
      | West \<Rightarrow> (max 0 (x s - 1), y s))"

definition baseState :: AgentState where
  "baseState =
     \<lparr> x = GRID_SIZE div 2, y = GRID_SIZE div 2, heading = North, energy = 80,
       inventory = [], notes = [''Calibrated and ready.''] \<rparr>"

definition clampEnergy :: "int \<Rightarrow> int" where
  "clampEnergy v = max 0 (min 100 v)"

subsection \<open>Response texts\<close>

text \<open>The non-ASCII characters of the response literals, as UTF-8 bytes: the curly quotes
  U+201C and U+201D, the middle dot U+00B7, the multiplication sign U+00D7, the degree
  sign U+00B0; and the ASCII double quote.\<close>

definition ldquo :: string where
  "ldquo = [CHR 0xE2, CHR 0x80, CHR 0x9C]"

definition rdquo :: string where
  "rdquo = [CHR 0xE2, CHR 0x80, CHR 0x9D]"

definition middot :: string where
  "middot = [CHR 0xC2, CHR 0xB7]"

definition timesSign :: string where
  "timesSign = [CHR 0xC3, CHR 0x97]"

definition degreeSign :: string where
  "degreeSign = [CHR 0xC2, CHR 0xB0]"

definition dquote :: string where
  "dquote = [CHR 0x22]"

definition awaitingResponse :: string where
  "awaitingResponse =
     ''Awaiting directives. Try something like '' @ ldquo @ ''move north'' @ rdquo @
     '' or '' @ ldquo @ ''scan perimeter'' @ rdquo @ ''.''"

definition helpResponse :: string where
  "helpResponse =
     ''Available directives: move <north|south|east|west|forward>, '' @
     ''turn <left|right|around>, scan, rest, status, reset, collect <item>, '' @
     ''drop <item>, note <text>, energy <value>, path <x,y>. '' @
     ''All commands are case-insensitive.''"

definition notePrompt :: string where
  "notePrompt =
     ''Please provide note content after the command (e.g. '' @ ldquo @
     ''note secure perimeter'' @ rdquo @ '').''"

definition collectPrompt :: string where
  "collectPrompt =
     ''Specify what to collect (e.g. '' @ ldquo @ ''collect sample'' @ rdquo @ '').''"

definition dropPrompt :: string where
  "dropPrompt =
     ''Specify what to drop (e.g. '' @ ldquo @ ''drop sample'' @ rdquo @ '').''"

definition energyPrompt :: string where
  "energyPrompt =
     ''Provide an energy value between 0 and 100 (e.g. '' @ ldquo @ ''energy 65'' @
     rdquo @ '').''"

definition pathUsage :: string where
  "pathUsage =
     ''Use '' @ ldquo @ ''path x,y'' @ rdquo @ '' to teleport the agent within the grid.''"

definition outOfBounds :: string where
  "outOfBounds =
     ''Coordinates out of bounds. The grid is '' @ numToString GRID_SIZE @ timesSign @
     numToString GRID_SIZE @ '', indexed from (0,0).''"

definition resetResponse :: string where
  "resetResponse = ''Agent reset to baseline configuration.''"

definition turnPrompt :: string where
  "turnPrompt = ''Specify turn direction: left, right, or around.''"

definition boundaryResponse :: string where
  "boundaryResponse = ''Boundary reached. Unable to move further forward.''"

definition fallbackResponse :: string where
  "fallbackResponse =
     ''Command not recognized. Request '' @ ldquo @ ''help'' @ rdquo @
     '' to review supported directives or provide a more specific instruction.''"

definition formatState :: "AgentState \<Rightarrow> string" where
  "formatState state =
     ''Position ('' @ numToString (x state) @ '', '' @ numToString (y state) @ '') '' @
     middot @ '' Heading '' @ toUpperCase (headingName (heading state)) @ '' '' @
     middot @ '' Energy '' @ numToString (energy state) @ ''%''"

subsection \<open>The interpreter\<close>

text \<open>\<^verbatim>\<open>interpretCommand\<close> is one chain of rules; the first rule whose test holds returns.
  The body of each rule that takes an argument or dispatches further is a definition of
  its own here, named after the rule, and \<open>interpretCommand\<close> below is the chain in the
  order of the source.\<close>

text \<open>Lines 100-115, the body of the rule for the prefix \<^verbatim>\<open>"note "\<close>.\<close>

definition noteBranch :: "string \<Rightarrow> AgentState \<Rightarrow> CommandResult" where
  "noteBranch input current =
     (let message = trim (slice input (indexOf (toLowerCase input) ''note'' + 4)) in
      if message = [] then
        \<lparr> response = notePrompt, nextState = current \<rparr>
      else
        \<lparr> response = ''Noted: '' @ message,
          nextState = current\<lparr> notes := notes current @ [message] \<rparr> \<rparr>)"

text \<open>Lines 117-138, the body of the rule for the prefix \<^verbatim>\<open>"collect "\<close>.\<close>

definition collectBranch :: "string \<Rightarrow> AgentState \<Rightarrow> CommandResult" where
  "collectBranch input current =
     (let item = trim (slice input (indexOf (toLowerCase input) ''collect'' + 7)) in
      if item = [] then
        \<lparr> response = collectPrompt, nextState = current \<rparr>
      else if item \<in> set (inventory current) then
        \<lparr> response = ''Item '' @ dquote @ item @ dquote @ '' is already secured.'',
          nextState = current \<rparr>
      else
        \<lparr> response = ''Collected '' @ dquote @ item @ dquote @ '' and stored in inventory.'',
          nextState = current\<lparr> inventory := inventory current @ [item] \<rparr> \<rparr>)"

text \<open>Lines 140-161, the body of the rule for the prefix \<^verbatim>\<open>"drop "\<close>.\<close>

definition dropBranch :: "string \<Rightarrow> AgentState \<Rightarrow> CommandResult" where
  "dropBranch input current =
     (let item = trim (slice input (indexOf (toLowerCase input) ''drop'' + 4)) in
      if item = [] then
        \<lparr> response = dropPrompt, nextState = current \<rparr>
      else if item \<notin> set (inventory current) then
        \<lparr> response = ''Inventory does not contain '' @ dquote @ item @ dquote @ ''.'',
          nextState = current \<rparr>
      else
        \<lparr> response = ''Released '' @ dquote @ item @ dquote @ '' from inventory.'',
          nextState =
            current\<lparr> inventory := filter (\<lambda>entry. entry \<noteq> item) (inventory current) \<rparr> \<rparr>)"

text \<open>Lines 163-178, the body of the rule for the prefix \<^verbatim>\<open>"energy "\<close>.\<close>

definition energyBranch :: "string \<Rightarrow> AgentState \<Rightarrow> CommandResult" where
  "energyBranch normalized current =
     (case parseInt (trim (replaceFirst normalized ''energy'' [])) of
        None \<Rightarrow> \<lparr> response = energyPrompt, nextState = current \<rparr>
      | Some value \<Rightarrow>
          \<lparr> response = ''Energy recalibrated to '' @ numToString (clampEnergy value) @ ''%.'',
            nextState = current\<lparr> energy := clampEnergy value \<rparr> \<rparr>)"

text \<open>Lines 180-212, the body of the rule for the prefix \<^verbatim>\<open>"path "\<close>. The test of
  line 190 reads \<^verbatim>\<open>NaN\<close> first: a coordinate that is not a number gives the bounds
  response.\<close>

definition pathBranch :: "string \<Rightarrow> AgentState \<Rightarrow> CommandResult" where
  "pathBranch normalized current =
     (let coords = split (trim (replaceFirst normalized ''path'' [])) CHR '','' in
      if length coords \<noteq> 2 then
        \<lparr> response = pathUsage, nextState = current \<rparr>
      else
        (case parseInt (trim (coords ! 0)) of
           None \<Rightarrow> \<lparr> response = outOfBounds, nextState = current \<rparr>
         | Some targetX \<Rightarrow>
             (case parseInt (trim (coords ! 1)) of
                None \<Rightarrow> \<lparr> response = outOfBounds, nextState = current \<rparr>
              | Some targetY \<Rightarrow>
                  if targetX < 0 \<or> targetY < 0 \<or> targetX \<ge> GRID_SIZE \<or> targetY \<ge> GRID_SIZE
                  then \<lparr> response = outOfBounds, nextState = current \<rparr>
                  else
                    \<lparr> response =
                        ''Navigated directly to ('' @ numToString targetX @ '', '' @
                        numToString targetY @ '').'',
                      nextState =
                        current\<lparr> x := targetX, y := targetY,
                                 energy := clampEnergy (energy current - 10) \<rparr> \<rparr>)))"

text \<open>Lines 221-227 and 229-237, the bodies of the rules for rest and scan.\<close>

definition restBranch :: "AgentState \<Rightarrow> CommandResult" where
  "restBranch current =
     (let restored = clampEnergy (energy current + 15) in
      \<lparr> response = ''Resting... Energy now at '' @ numToString restored @ ''%.'',
        nextState = current\<lparr> energy := restored \<rparr> \<rparr>)"

definition scanBranch :: "AgentState \<Rightarrow> CommandResult" where
  "scanBranch current =
     (let report =
            ''Scan complete. No threats detected. Notes: '' @
            (if notes current \<noteq> [] then last (notes current) else ''No mission notes.'') in
      \<lparr> response = report,
        nextState = current\<lparr> energy := clampEnergy (energy current - 5) \<rparr> \<rparr>)"

text \<open>Lines 239-275, the body of the rule for the prefix \<^verbatim>\<open>"turn "\<close>.\<close>

definition turnBranch :: "string \<Rightarrow> AgentState \<Rightarrow> CommandResult" where
  "turnBranch normalized current =
     (if includesStr normalized ''left'' then
        \<lparr> response =
            ''Turned left. Heading '' @
            toUpperCase (headingName (nextHeading (heading current) TurnLeft)) @ ''.'',
          nextState =
            current\<lparr> heading := nextHeading (heading current) TurnLeft,
                     energy := clampEnergy (energy current - 2) \<rparr> \<rparr>
      else if includesStr normalized ''right'' then
        \<lparr> response =
            ''Turned right. Heading '' @
            toUpperCase (headingName (nextHeading (heading current) TurnRight)) @ ''.'',
          nextState =
            current\<lparr> heading := nextHeading (heading current) TurnRight,
                     energy := clampEnergy (energy current - 2) \<rparr> \<rparr>
      else if includesStr normalized ''around'' then
        (let halfway = nextHeading (heading current) TurnRight in
         \<lparr> response =
             ''Executed 180'' @ degreeSign @ '' pivot. Heading '' @
             toUpperCase (headingName (nextHeading halfway TurnRight)) @ ''.'',
           nextState =
             current\<lparr> heading := nextHeading (nextHeading (heading current) TurnRight) TurnRight,
                      energy := clampEnergy (energy current - 3) \<rparr> \<rparr>)
      else
        \<lparr> response = turnPrompt, nextState = current \<rparr>)"

text \<open>Lines 277-345, the body of the rule for moving. \<open>nextPosition\<close> is the pair that
  \<^verbatim>\<open>moveForward\<close> returns for the state with the heading forced; the source spreads it
  over a copy of the state and reads only its coordinates.\<close>

definition moveBranch :: "string \<Rightarrow> AgentState \<Rightarrow> CommandResult" where
  "moveBranch normalized current =
     (if includesStr normalized ''north'' then
        (let nextPosition = moveForward (current\<lparr> heading := North \<rparr>) in
         \<lparr> response =
             ''Advanced north to ('' @ numToString (fst nextPosition) @ '', '' @
             numToString (snd nextPosition) @ '').'',
           nextState =
             current\<lparr> x := fst nextPosition, y := snd nextPosition, heading := North,
                      energy := clampEnergy (energy current - 6) \<rparr> \<rparr>)
      else if includesStr normalized ''south'' then
        (let nextPosition = moveForward (current\<lparr> heading := South \<rparr>) in
         \<lparr> response =
             ''Advanced south to ('' @ numToString (fst nextPosition) @ '', '' @
             numToString (snd nextPosition) @ '').'',
           nextState =
             current\<lparr> x := fst nextPosition, y := snd nextPosition, heading := South,
                      energy := clampEnergy (energy current - 6) \<rparr> \<rparr>)
      else if includesStr normalized ''east'' then
        (let nextPosition = moveForward (current\<lparr> heading := East \<rparr>) in
         \<lparr> response =
             ''Advanced east to ('' @ numToString (fst nextPosition) @ '', '' @
             numToString (snd nextPosition) @ '').'',
           nextState =
             current\<lparr> x := fst nextPosition, y := snd nextPosition, heading := East,
                      energy := clampEnergy (energy current - 6) \<rparr> \<rparr>)
      else if includesStr normalized ''west'' then
        (let nextPosition = moveForward (current\<lparr> heading := West \<rparr>) in
         \<lparr> response =
             ''Advanced west to ('' @ numToString (fst nextPosition) @ '', '' @
             numToString (snd nextPosition) @ '').'',
           nextState =
             current\<lparr> x := fst nextPosition, y := snd nextPosition, heading := West,
                      energy := clampEnergy (energy current - 6) \<rparr> \<rparr>)
      else
        (let nextCoords = moveForward current in
         if fst nextCoords = x current \<and> snd nextCoords = y current then
           \<lparr> response = boundaryResponse, nextState = current \<rparr>
         else
           \<lparr> response =
               ''Advanced forward to ('' @ numToString (fst nextCoords) @ '', '' @
               numToString (snd nextCoords) @ '').'',
             nextState =
               current\<lparr> x := fst nextCoords, y := snd nextCoords,
                        energy := clampEnergy (energy current - 6) \<rparr> \<rparr>))"

text \<open>Lines 75-352.\<close>

definition interpretCommand :: "string \<Rightarrow> AgentState \<Rightarrow> CommandResult" where
  "interpretCommand input current =
    (let normalized = toLowerCase (trim input) in
     if normalized = [] then
       \<lparr> response = awaitingResponse, nextState = current \<rparr>
     else if normalized \<in> set [''help'', ''commands'', ''manual''] then
       \<lparr> response = helpResponse, nextState = current \<rparr>
     else if normalized \<in> set [''status'', ''report'', ''state''] then
       \<lparr> response = formatState current, nextState = current \<rparr>
     else if startsWith normalized ''note '' then noteBranch input current
     else if startsWith normalized ''collect '' then collectBranch input current
     else if startsWith normalized ''drop '' then dropBranch input current
     else if startsWith normalized ''energy '' then energyBranch normalized current
     else if startsWith normalized ''path '' then pathBranch normalized current
     else if normalized \<in> set [''reset'', ''reboot'', ''init''] then
       \<lparr> response = resetResponse, nextState = baseState \<rparr>
     else if normalized \<in> set [''rest'', ''recover'', ''recharge''] then restBranch current
     else if normalized \<in> set [''scan'', ''scan area'', ''scan perimeter'', ''analyze''] then
       scanBranch current
     else if startsWith normalized ''turn '' then turnBranch normalized current
     else if startsWith normalized ''move'' \<or> includesStr normalized ''forward'' then
       moveBranch normalized current
     else
       \<lparr> response = fallbackResponse, nextState = current \<rparr>)"

subsection \<open>The session controller\<close>

text \<open>The state part of \<^verbatim>\<open>handleSubmit\<close> (lines 384-404): a blank command is ignored, any
  other replaces the agent state by the interpreter's next state. \<open>runCommands\<close> submits
  a sequence of commands one after the other.\<close>

definition submit :: "string \<Rightarrow> AgentState \<Rightarrow> AgentState" where
  "submit command agentState =
     (if trim command = [] then agentState
      else nextState (interpretCommand command agentState))"

definition runCommands :: "string list \<Rightarrow> AgentState \<Rightarrow> AgentState" where
  "runCommands commands agentState = foldl (\<lambda>s c. submit c s) agentState commands"

subsection \<open>Notions used in the statements\<close>

text \<open>The energy a rule leaves is the energy it found or a value in the range of the
  clamp.\<close>

definition energyKeptOrClamped :: "AgentState \<Rightarrow> AgentState \<Rightarrow> bool" where
  "energyKeptOrClamped current next \<longleftrightarrow>
     energy next = energy current \<or> (0 \<le> energy next \<and> energy next \<le> 100)"

text \<open>The agent stands on the 7 by 7 grid.\<close>

definition onGrid :: "AgentState \<Rightarrow> bool" where
  "onGrid s \<longleftrightarrow> 0 \<le> x s \<and> x s \<le> 6 \<and> 0 \<le> y s \<and> y s \<le> 6"



text \<open>The heading half a turn away.\<close>

fun opposite :: "Heading \<Rightarrow> Heading" where
  "opposite North = South"
| "opposite South = North"
| "opposite East = West"
| "opposite West = East"

text \<open>The target of a path command, following the words of the specification: the
  remainder is exactly two comma-separated parts, each is numeric for \<open>parseInt\<close>, and
  both coordinates lie in \<open>[0,6]\<close>.\<close>

definition specPathTarget :: "string \<Rightarrow> (int \<times> int) option" where
  "specPathTarget remainder =
     (case split remainder CHR '','' of
        [a, b] \<Rightarrow>
          (case parseInt (trim a) of
             None \<Rightarrow> None
           | Some tx \<Rightarrow>
               (case parseInt (trim b) of
                  None \<Rightarrow> None
                | Some ty \<Rightarrow>
                    if 0 \<le> tx \<and> tx \<le> 6 \<and> 0 \<le> ty \<and> ty \<le> 6 then Some (tx, ty) else None))
      | _ \<Rightarrow> None)"

text \<open>The stricter reading of the same words: each part, trimmed, is an integer and
  nothing else, an optional sign and then decimal digits only.\<close>

definition specIntegerLiteral :: "string \<Rightarrow> bool" where
  "specIntegerLiteral t \<longleftrightarrow>
     (let u = (if startsWith t ''-'' \<or> startsWith t ''+'' then tl t else t)
      in u \<noteq> [] \<and> list_all isDigit u)"

definition specIntegerPair :: "string \<Rightarrow> bool" where
  "specIntegerPair remainder \<longleftrightarrow>
     (case split remainder CHR '','' of
        [a, b] \<Rightarrow> specIntegerLiteral (trim a) \<and> specIntegerLiteral (trim b)
      | _ \<Rightarrow> False)"

text \<open>The response is one of the three prompts for a missing argument (lines 104, 121,
  144).\<close>

definition isMissingArgumentPrompt :: "string \<Rightarrow> bool" where
  "isMissingArgumentPrompt r \<longleftrightarrow> r = notePrompt \<or> r = collectPrompt \<or> r = dropPrompt"

section \<open>Properties\<close>

subsection \<open>Evaluating the string primitives\<close>

lemmas string_eval =
  toLowerCase_def toUpperCase_def lowerChar_def upperChar_def upperLetters_def
  lowerLetters_def trim_def trimEnd_def trimStart_def isWhiteSpace_def startsWith_def
  includesStr_def indexOf_def

subsection \<open>The clamps\<close>

lemma clampEnergy_bounds: "0 \<le> clampEnergy v" "clampEnergy v \<le> 100"
  by (simp_all add: clampEnergy_def)

lemma moveForward_onGrid:
  assumes "0 \<le> x s" "x s \<le> 6" "0 \<le> y s" "y s \<le> 6"
  shows "0 \<le> fst (moveForward s)" "fst (moveForward s) \<le> 6"
        "0 \<le> snd (moveForward s)" "snd (moveForward s) \<le> 6"
  using assms by (simp_all add: moveForward_def GRID_SIZE_def split: Heading.split)

subsection \<open>What every rule preserves, the interpreter preserves\<close>

lemma interpretCommand_preserves:
  assumes "Q current" "Q baseState"
    and "Q (nextState (noteBranch input current))"
    and "Q (nextState (collectBranch input current))"
    and "Q (nextState (dropBranch input current))"
    and "Q (nextState (energyBranch (toLowerCase (trim input)) current))"
    and "Q (nextState (pathBranch (toLowerCase (trim input)) current))"
    and "Q (nextState (restBranch current))"
    and "Q (nextState (scanBranch current))"
    and "Q (nextState (turnBranch (toLowerCase (trim input)) current))"
    and "Q (nextState (moveBranch (toLowerCase (trim input)) current))"
  shows "Q (nextState (interpretCommand input current))"
  using assms unfolding interpretCommand_def Let_def
  by (simp only: if_distrib [of nextState] if_distrib [of Q] CommandResult.select_convs
      if_cancel)

lemma runCommands_preserves:
  assumes step: "\<And>c s. Q s \<Longrightarrow> Q (nextState (interpretCommand c s))"
    and start: "Q current"
  shows "Q (runCommands commands current)"
  using start unfolding runCommands_def
proof (induction commands arbitrary: current)
  case Nil
  then show ?case by simp
next
  case (Cons c cs)
  have "Q (submit c current)"
    using Cons.prems step by (simp add: submit_def)
  then show ?case using Cons.IH by simp
qed

subsection \<open>Energy\<close>

lemma note_energy: "energy (nextState (noteBranch i s)) = energy s"
  by (simp add: noteBranch_def Let_def)

lemma collect_energy: "energy (nextState (collectBranch i s)) = energy s"
  by (simp add: collectBranch_def Let_def)

lemma drop_energy: "energy (nextState (dropBranch i s)) = energy s"
  by (simp add: dropBranch_def Let_def)

lemma energy_energy: "energyKeptOrClamped s (nextState (energyBranch n s))"
  by (simp add: energyBranch_def energyKeptOrClamped_def clampEnergy_bounds
      split: option.split)

lemma path_energy: "energyKeptOrClamped s (nextState (pathBranch n s))"
  by (simp add: pathBranch_def Let_def energyKeptOrClamped_def clampEnergy_bounds
      split: option.split)

lemma rest_energy: "energyKeptOrClamped s (nextState (restBranch s))"
  by (simp add: restBranch_def Let_def energyKeptOrClamped_def clampEnergy_bounds)

lemma scan_energy: "energyKeptOrClamped s (nextState (scanBranch s))"
  by (simp add: scanBranch_def Let_def energyKeptOrClamped_def clampEnergy_bounds)

lemma turn_energy: "energyKeptOrClamped s (nextState (turnBranch n s))"
  by (simp add: turnBranch_def Let_def energyKeptOrClamped_def clampEnergy_bounds)

lemma move_energy: "energyKeptOrClamped s (nextState (moveBranch n s))"
  by (simp add: moveBranch_def Let_def energyKeptOrClamped_def clampEnergy_bounds)

lemma interpretCommand_energy: "energyKeptOrClamped s (nextState (interpretCommand i s))"
proof (rule interpretCommand_preserves)
  show "energyKeptOrClamped s s"
    by (simp add: energyKeptOrClamped_def)
  show "energyKeptOrClamped s baseState"
    by (simp add: energyKeptOrClamped_def baseState_def)
qed (simp_all add: energyKeptOrClamped_def note_energy collect_energy drop_energy
    energy_energy [unfolded energyKeptOrClamped_def]
    path_energy [unfolded energyKeptOrClamped_def]
    rest_energy [unfolded energyKeptOrClamped_def]
    scan_energy [unfolded energyKeptOrClamped_def]
    turn_energy [unfolded energyKeptOrClamped_def]
    move_energy [unfolded energyKeptOrClamped_def])

lemma interpretCommand_energy_range:
  assumes "0 \<le> energy s \<and> energy s \<le> 100"
  shows "0 \<le> energy (nextState (interpretCommand i s)) \<and>
         energy (nextState (interpretCommand i s)) \<le> 100"
  using assms interpretCommand_energy [of s i] by (auto simp add: energyKeptOrClamped_def)

text \<open>
  Claim C1. Whatever the input, a state whose energy lies in \<open>[0,100]\<close> is taken by
  \<open>interpretCommand\<close> to a state whose energy lies in \<open>[0,100]\<close>: the energy of the next
  state is the energy of the current one or a value that went through \<open>clampEnergy\<close>
  (this part needs no assumption on the starting energy), and so no sequence of submitted
  commands drives the energy below 0 or above 100.
\<close>

theorem energy_stays_in_range:
  assumes "0 \<le> energy current" and "energy current \<le> 100"
  shows "energyKeptOrClamped current (nextState (interpretCommand input current)) \<and>
         0 \<le> energy (nextState (interpretCommand input current)) \<and>
         energy (nextState (interpretCommand input current)) \<le> 100 \<and>
         0 \<le> energy (runCommands commands current) \<and>
         energy (runCommands commands current) \<le> 100"
proof -
  have start: "0 \<le> energy current \<and> energy current \<le> 100"
    using assms by simp
  have "0 \<le> energy (runCommands commands current) \<and>
        energy (runCommands commands current) \<le> 100"
    by (rule runCommands_preserves [where Q = "\<lambda>s. 0 \<le> energy s \<and> energy s \<le> 100"])
      (use start interpretCommand_energy_range in blast)+
  then show ?thesis
    using interpretCommand_energy [of current input] interpretCommand_energy_range [OF start]
    by simp
qed

theorem energy_stays_in_range_witness:
  "0 \<le> energy baseState \<and> energy baseState \<le> 100 \<and>
   energyKeptOrClamped baseState (nextState (interpretCommand ''rest'' baseState)) \<and>
   0 \<le> energy (nextState (interpretCommand ''rest'' baseState)) \<and>
   energy (nextState (interpretCommand ''rest'' baseState)) \<le> 100 \<and>
   0 \<le> energy (runCommands [''rest'', ''rest'', ''energy 250''] baseState) \<and>
   energy (runCommands [''rest'', ''rest'', ''energy 250''] baseState) \<le> 100"
  using energy_stays_in_range [of baseState "''rest''" "[''rest'', ''rest'', ''energy 250'']"]
  by (simp add: baseState_def)

subsection \<open>The grid\<close>

lemma note_position: "onGrid s \<Longrightarrow> onGrid (nextState (noteBranch i s))"
  by (simp add: noteBranch_def Let_def onGrid_def)

lemma collect_position: "onGrid s \<Longrightarrow> onGrid (nextState (collectBranch i s))"
  by (simp add: collectBranch_def Let_def onGrid_def)

lemma drop_position: "onGrid s \<Longrightarrow> onGrid (nextState (dropBranch i s))"
  by (simp add: dropBranch_def Let_def onGrid_def)

lemma energy_position: "onGrid s \<Longrightarrow> onGrid (nextState (energyBranch n s))"
  by (simp add: energyBranch_def onGrid_def split: option.split)

lemma path_position: "onGrid s \<Longrightarrow> onGrid (nextState (pathBranch n s))"
  by (simp add: pathBranch_def Let_def onGrid_def GRID_SIZE_def split: option.split)

lemma rest_position: "onGrid s \<Longrightarrow> onGrid (nextState (restBranch s))"
  by (simp add: restBranch_def Let_def onGrid_def)

lemma scan_position: "onGrid s \<Longrightarrow> onGrid (nextState (scanBranch s))"
  by (simp add: scanBranch_def Let_def onGrid_def)

lemma turn_position: "onGrid s \<Longrightarrow> onGrid (nextState (turnBranch n s))"
  by (simp add: turnBranch_def Let_def onGrid_def)

lemma move_position:
  assumes "onGrid s"
  shows "onGrid (nextState (moveBranch n s))"
  using assms moveForward_onGrid [of "s\<lparr>heading := North\<rparr>"]
    moveForward_onGrid [of "s\<lparr>heading := South\<rparr>"]
    moveForward_onGrid [of "s\<lparr>heading := East\<rparr>"]
    moveForward_onGrid [of "s\<lparr>heading := West\<rparr>"]
    moveForward_onGrid [of s]
  by (simp add: moveBranch_def Let_def onGrid_def)

lemma interpretCommand_position:
  assumes "onGrid s"
  shows "onGrid (nextState (interpretCommand i s))"
proof (rule interpretCommand_preserves)
  show "onGrid baseState"
    by (simp add: onGrid_def baseState_def GRID_SIZE_def)
qed (simp_all add: assms note_position collect_position drop_position energy_position
    path_position rest_position scan_position turn_position move_position)

text \<open>
  Claim C2. Whatever the input, a state with \<open>0 \<le> x \<le> 6\<close> and \<open>0 \<le> y \<le> 6\<close> is taken by
  \<open>interpretCommand\<close> to a state with \<open>0 \<le> x \<le> 6\<close> and \<open>0 \<le> y \<le> 6\<close>: a step of
  \<open>moveForward\<close> is clamped to the grid and the path rule rejects a target outside it, so
  no sequence of submitted commands moves the agent off the 7 by 7 grid.
\<close>

theorem position_stays_on_grid:
  assumes "0 \<le> x current" and "x current \<le> 6" and "0 \<le> y current" and "y current \<le> 6"
  shows "0 \<le> x (nextState (interpretCommand input current)) \<and>
         x (nextState (interpretCommand input current)) \<le> 6 \<and>
         0 \<le> y (nextState (interpretCommand input current)) \<and>
         y (nextState (interpretCommand input current)) \<le> 6 \<and>
         0 \<le> x (runCommands commands current) \<and> x (runCommands commands current) \<le> 6 \<and>
         0 \<le> y (runCommands commands current) \<and> y (runCommands commands current) \<le> 6"
proof -
  have start: "onGrid current"
    using assms by (simp add: onGrid_def)
  have "onGrid (runCommands commands current)"
    by (rule runCommands_preserves [where Q = onGrid])
      (use start interpretCommand_position in blast)+
  then show ?thesis
    using interpretCommand_position [OF start, of input] by (simp add: onGrid_def)
qed

theorem position_stays_on_grid_witness:
  "0 \<le> x baseState \<and> x baseState \<le> 6 \<and> 0 \<le> y baseState \<and> y baseState \<le> 6 \<and>
   0 \<le> x (nextState (interpretCommand ''path 6,6'' baseState)) \<and>
   x (nextState (interpretCommand ''path 6,6'' baseState)) \<le> 6 \<and>
   0 \<le> y (nextState (interpretCommand ''path 6,6'' baseState)) \<and>
   y (nextState (interpretCommand ''path 6,6'' baseState)) \<le> 6 \<and>
   0 \<le> x (runCommands [''path 6,6'', ''move north'', ''move east''] baseState) \<and>
   x (runCommands [''path 6,6'', ''move north'', ''move east''] baseState) \<le> 6 \<and>
   0 \<le> y (runCommands [''path 6,6'', ''move north'', ''move east''] baseState) \<and>
   y (runCommands [''path 6,6'', ''move north'', ''move east''] baseState) \<le> 6"
  using position_stays_on_grid
    [of baseState "''path 6,6''" "[''path 6,6'', ''move north'', ''move east'']"]
  by (simp add: baseState_def GRID_SIZE_def)

subsection \<open>Which rule takes an input\<close>

lemma dispatch_turn:
  assumes "startsWith (toLowerCase (trim input)) ''turn ''"
  shows "interpretCommand input current = turnBranch (toLowerCase (trim input)) current"
proof -
  obtain r where n: "toLowerCase (trim input) = ''turn '' @ r"
    using assms by (auto simp add: startsWith_def prefix_def)
  show ?thesis
    unfolding interpretCommand_def Let_def n by (simp add: startsWith_def)
qed



lemma nextHeading_left:
  "nextHeading North TurnLeft = West" "nextHeading West TurnLeft = South"
  "nextHeading South TurnLeft = East" "nextHeading East TurnLeft = North"
  by (simp_all add: nextHeading_def headingOrder_def)

lemma nextHeading_right:
  "nextHeading North TurnRight = East" "nextHeading East TurnRight = South"
  "nextHeading South TurnRight = West" "nextHeading West TurnRight = North"
  by (simp_all add: nextHeading_def headingOrder_def)

lemma nextHeading_twice: "nextHeading (nextHeading h TurnRight) TurnRight = opposite h"
  by (cases h) (simp_all add: nextHeading_right)

subsection \<open>Moving\<close>








subsection \<open>Resetting\<close>

text \<open>
  Claim C7. From any state, each of the inputs "reset", "reboot" and "init" returns the
  baseline state itself: position (3,3), heading north, energy 80, an empty inventory and
  the one seed note; nothing of the current state is kept.
\<close>

theorem reset_returns_baseline:
  "interpretCommand ''reset'' current = \<lparr> response = resetResponse, nextState = baseState \<rparr> \<and>
   interpretCommand ''reboot'' current = \<lparr> response = resetResponse, nextState = baseState \<rparr> \<and>
   interpretCommand ''init'' current = \<lparr> response = resetResponse, nextState = baseState \<rparr> \<and>
   baseState =
     \<lparr> x = 3, y = 3, heading = North, energy = 80, inventory = [],
       notes = [''Calibrated and ready.''] \<rparr>"
  by (simp add: interpretCommand_def string_eval baseState_def GRID_SIZE_def)

subsection \<open>Turning\<close>

lemma interpret_turn_left:
  "interpretCommand ''turn left'' current = turnBranch ''turn left'' current"
  by (simp add: interpretCommand_def string_eval)

lemma interpret_turn_right:
  "interpretCommand ''turn right'' current = turnBranch ''turn right'' current"
  by (simp add: interpretCommand_def string_eval)

lemma turnBranch_left:
  "nextState (turnBranch ''turn left'' current) =
     current\<lparr> heading := nextHeading (heading current) TurnLeft,
              energy := clampEnergy (energy current - 2) \<rparr>"
  by (simp add: turnBranch_def string_eval)

lemma turnBranch_right:
  "nextState (turnBranch ''turn right'' current) =
     current\<lparr> heading := nextHeading (heading current) TurnRight,
              energy := clampEnergy (energy current - 2) \<rparr>"
  by (simp add: turnBranch_def string_eval)

text \<open>
  Claim C9. From any heading, "turn left" (one step counter-clockwise, north to west to
  south to east to north, 2 energy deducted through the clamp) followed by "turn right"
  (one step clockwise, 2 energy deducted through the clamp) gives back the heading the
  agent started with.
\<close>

theorem turn_left_then_right:
  "heading (nextState (interpretCommand ''turn right''
      (nextState (interpretCommand ''turn left'' current)))) = heading current \<and>
   heading (nextState (interpretCommand ''turn left'' current)) =
     (case heading current of
        North \<Rightarrow> West | West \<Rightarrow> South | South \<Rightarrow> East | East \<Rightarrow> North) \<and>
   energy (nextState (interpretCommand ''turn left'' current)) =
     clampEnergy (energy current - 2) \<and>
   heading (nextState (interpretCommand ''turn right'' current)) =
     (case heading current of
        North \<Rightarrow> East | East \<Rightarrow> South | South \<Rightarrow> West | West \<Rightarrow> North) \<and>
   energy (nextState (interpretCommand ''turn right'' current)) =
     clampEnergy (energy current - 2)"
  by (cases "heading current")
    (simp_all add: interpret_turn_left interpret_turn_right turnBranch_left turnBranch_right
      nextHeading_left nextHeading_right)

text \<open>
  Claim C8, as amended. Whatever the heading, an input whose normalised form starts with
  "turn " and contains "around", and contains neither "left" nor "right" (the turn rule
  looks for these two first), rotates the heading clockwise twice, which is the opposite
  heading, deducts 3 energy through the clamp, and answers with the heading reached after
  both rotations, never the one reached after the first.
\<close>

theorem turn_around:
  assumes "startsWith (toLowerCase (trim input)) ''turn ''"
    and "includesStr (toLowerCase (trim input)) ''around''"
    and "\<not> includesStr (toLowerCase (trim input)) ''left''"
    and "\<not> includesStr (toLowerCase (trim input)) ''right''"
  shows "interpretCommand input current =
     \<lparr> response =
         ''Executed 180'' @ degreeSign @ '' pivot. Heading '' @
         toUpperCase (headingName (opposite (heading current))) @ ''.'',
       nextState =
         current\<lparr> heading := opposite (heading current),
                  energy := clampEnergy (energy current - 3) \<rparr> \<rparr> \<and>
   opposite (heading current) =
     nextHeading (nextHeading (heading current) TurnRight) TurnRight \<and>
   opposite (heading current) \<noteq> nextHeading (heading current) TurnRight"
proof -
  have "interpretCommand input current = turnBranch (toLowerCase (trim input)) current"
    using assms(1) by (rule dispatch_turn)
  moreover have "opposite (heading current) \<noteq> nextHeading (heading current) TurnRight"
    by (cases "heading current") (simp_all add: nextHeading_right)
  ultimately show ?thesis
    using assms(2-4) by (simp add: turnBranch_def Let_def nextHeading_twice)
qed

theorem turn_around_witness:
  "startsWith (toLowerCase (trim ''Turn Around'')) ''turn '' \<and>
   includesStr (toLowerCase (trim ''Turn Around'')) ''around'' \<and>
   \<not> includesStr (toLowerCase (trim ''Turn Around'')) ''left'' \<and>
   \<not> includesStr (toLowerCase (trim ''Turn Around'')) ''right'' \<and>
   interpretCommand ''Turn Around'' baseState =
     \<lparr> response = ''Executed 180'' @ degreeSign @ '' pivot. Heading SOUTH.'',
       nextState = baseState\<lparr> heading := South, energy := 77 \<rparr> \<rparr>"
proof -
  have a: "startsWith (toLowerCase (trim ''Turn Around'')) ''turn ''"
    and b: "includesStr (toLowerCase (trim ''Turn Around'')) ''around''"
    and c: "\<not> includesStr (toLowerCase (trim ''Turn Around'')) ''left''"
    and d: "\<not> includesStr (toLowerCase (trim ''Turn Around'')) ''right''"
    by code_simp+
  have "interpretCommand ''Turn Around'' baseState =
     \<lparr> response = ''Executed 180'' @ degreeSign @ '' pivot. Heading SOUTH.'',
       nextState = baseState\<lparr> heading := South, energy := 77 \<rparr> \<rparr>"
    by (rule trans [OF turn_around [OF a b c d, of baseState, THEN conjunct1]]) code_simp
  with a b c d show ?thesis by blast
qed

text \<open>The claim as first stated, for every input of the turn rule that contains
  "around", fails when the input also contains "left": "turn around left" turns the agent
  once to the left and deducts 2 energy.\<close>

theorem turn_around_counterexample:
  "startsWith (toLowerCase (trim ''turn around left'')) ''turn '' \<and>
   includesStr (toLowerCase (trim ''turn around left'')) ''around'' \<and>
   interpretCommand ''turn around left'' baseState =
     \<lparr> response = ''Turned left. Heading WEST.'',
       nextState = baseState\<lparr> heading := West, energy := 78 \<rparr> \<rparr> \<and>
   heading (nextState (interpretCommand ''turn around left'' baseState)) \<noteq>
     nextHeading (nextHeading (heading baseState) TurnRight) TurnRight \<and>
   energy (nextState (interpretCommand ''turn around left'' baseState)) \<noteq>
     clampEnergy (energy baseState - 3)"
  by code_simp

subsection \<open>Facts about the string primitives\<close>

lemma firstOccurrence_prefix: "prefix p s \<Longrightarrow> firstOccurrence p s = Some 0"
  by (cases s) simp_all

lemma replaceFirst_prefix: "prefix p s \<Longrightarrow> replaceFirst s p r = r @ drop (length p) s"
  by (simp add: replaceFirst_def firstOccurrence_prefix)

lemma indexOf_prefix: "prefix p s \<Longrightarrow> indexOf s p = 0"
  by (simp add: indexOf_def firstOccurrence_prefix)

lemma firstOccurrence_after_space:
  assumes "p \<noteq> []" and "\<not> isWhiteSpace (hd p)" and "list_all isWhiteSpace ws"
    and "prefix p s"
  shows "firstOccurrence p (ws @ s) = Some (length ws)"
  using assms(3)
proof (induction ws)
  case Nil
  then show ?case using assms(4) by (simp add: firstOccurrence_prefix)
next
  case (Cons w ws)
  have "\<not> prefix p (w # ws @ s)"
    using assms(1,2) Cons.prems by (cases p) auto
  then show ?case using Cons by simp
qed

lemma lowerChar_space: "isWhiteSpace c \<Longrightarrow> lowerChar c = c"
  unfolding isWhiteSpace_def lowerChar_def upperLetters_def lowerLetters_def
  by (elim disjE) simp_all

lemma trimEnd_decompose:
  "\<exists>t. s = trimEnd s @ t \<and> list_all isWhiteSpace t"
proof -
  have "rev s = takeWhile isWhiteSpace (rev s) @ dropWhile isWhiteSpace (rev s)"
    by simp
  then have "s = rev (dropWhile isWhiteSpace (rev s)) @ rev (takeWhile isWhiteSpace (rev s))"
    by (metis rev_append rev_rev_ident)
  moreover have "list_all isWhiteSpace (rev (takeWhile isWhiteSpace (rev s)))"
    by (simp add: list_all_iff) (meson set_takeWhileD)
  ultimately show ?thesis unfolding trimEnd_def by blast
qed

lemma trimEnd_last: "trimEnd s \<noteq> [] \<Longrightarrow> \<not> isWhiteSpace (last (trimEnd s))"
  unfolding trimEnd_def
  by (metis hd_dropWhile last_rev rev_is_Nil_conv)

lemma trimEnd_empty_iff: "trimEnd s = [] \<longleftrightarrow> list_all isWhiteSpace s"
  by (simp add: trimEnd_def dropWhile_eq_Nil_conv list_all_iff)

lemma trim_empty_iff: "trim s = [] \<longleftrightarrow> list_all isWhiteSpace s"
proof -
  have "list_all isWhiteSpace (dropWhile isWhiteSpace s) \<longleftrightarrow> list_all isWhiteSpace s"
    by (induction s) simp_all
  then show ?thesis by (simp add: trim_def trimStart_def trimEnd_empty_iff)
qed

lemma trimStart_keep: "s \<noteq> [] \<Longrightarrow> \<not> isWhiteSpace (hd s) \<Longrightarrow> trimStart s = s"
  by (cases s) (simp_all add: trimStart_def)

lemma trimEnd_append_keep:
  assumes "\<not> list_all isWhiteSpace t"
  shows "trimEnd (s @ t) = s @ trimEnd t"
proof -
  obtain c where "c \<in> set (rev t)" "\<not> isWhiteSpace c"
    using assms by (auto simp add: list_all_iff)
  then have "dropWhile isWhiteSpace (rev t @ rev s) = dropWhile isWhiteSpace (rev t) @ rev s"
    by (rule dropWhile_append1)
  then show ?thesis by (simp add: trimEnd_def)
qed

lemma trimEnd_append_blank:
  assumes "list_all isWhiteSpace t"
  shows "trimEnd (s @ t) = trimEnd s"
proof -
  have "dropWhile isWhiteSpace (rev t @ rev s) = dropWhile isWhiteSpace (rev s)"
    using assms by (intro dropWhile_append2) (simp add: list_all_iff)
  then show ?thesis by (simp add: trimEnd_def)
qed

text \<open>The argument of a command word is never empty: when the trimmed, lower-cased input
  starts with the word and a space, the text that the rule cuts out of the original input
  after the word still holds the last character of the trimmed input.\<close>

lemma argument_not_empty:
  assumes word: "p \<noteq> []" "\<not> isWhiteSpace (hd p)"
    and start: "prefix (p @ '' '') (toLowerCase (trim input))"
  shows "trim (slice input (indexOf (toLowerCase input) p + int (length p))) \<noteq> []"
proof -
  define ws where "ws = takeWhile isWhiteSpace input"
  define body where "body = trimStart input"
  define core where "core = trimEnd body"
  have input: "input = ws @ body"
    by (simp add: ws_def body_def trimStart_def)
  have blank: "list_all isWhiteSpace ws"
    by (simp add: ws_def list_all_iff) (meson set_takeWhileD)
  obtain t where body: "body = core @ t"
    using trimEnd_decompose [of body] core_def by auto
  have core: "core = trim input"
    by (simp add: core_def body_def trim_def)
  obtain rest where lower: "toLowerCase core = p @ '' '' @ rest"
    using start core by (auto simp add: prefix_def)
  have "length core = length (toLowerCase core)"
    by (simp add: toLowerCase_def)
  also have "\<dots> = length p + 1 + length rest"
    by (simp only: lower) simp
  finally have long: "length p < length core"
    by simp
  have "toLowerCase ws = ws"
    using blank by (induction ws) (simp_all add: toLowerCase_def lowerChar_space)
  moreover have "toLowerCase input = toLowerCase ws @ toLowerCase core @ toLowerCase t"
    by (simp add: input body toLowerCase_def)
  ultimately have "toLowerCase input = ws @ (p @ '' '' @ rest @ toLowerCase t)"
    by (simp only: lower append_assoc)
  moreover have "prefix p (p @ '' '' @ rest @ toLowerCase t)"
    by simp
  ultimately have "firstOccurrence p (toLowerCase input) = Some (length ws)"
    using firstOccurrence_after_space [OF word blank] by simp
  then have "slice input (indexOf (toLowerCase input) p + int (length p)) =
      drop (length ws + length p) input"
    by (simp add: slice_def indexOf_def nat_add_distrib)
  also have "\<dots> = drop (length p) core @ t"
    using long by (simp add: input body)
  finally have cut: "slice input (indexOf (toLowerCase input) p + int (length p)) =
      drop (length p) core @ t" .
  have "core \<noteq> []"
    using long by auto
  then have "\<not> isWhiteSpace (last core)"
    unfolding core_def by (rule trimEnd_last)
  moreover have "last core \<in> set (drop (length p) core)"
  proof -
    have "drop (length p) core \<noteq> []"
      using long by simp
    then have "last (drop (length p) core) \<in> set (drop (length p) core)"
      by (rule last_in_set)
    then show ?thesis
      using long by (simp add: last_drop)
  qed
  ultimately have "\<not> list_all isWhiteSpace (drop (length p) core @ t)"
    by (auto simp add: list_all_iff)
  then show ?thesis
    by (simp add: cut trim_empty_iff)
qed

subsection \<open>The path command\<close>

lemma dispatch_path:
  assumes "startsWith (toLowerCase (trim input)) ''path ''"
  shows "interpretCommand input current = pathBranch (toLowerCase (trim input)) current"
proof -
  obtain r where n: "toLowerCase (trim input) = ''path '' @ r"
    using assms by (auto simp add: startsWith_def prefix_def)
  show ?thesis
    unfolding interpretCommand_def Let_def n by (simp add: startsWith_def)
qed

lemma path_remainder:
  assumes "startsWith n ''path ''"
  shows "replaceFirst n ''path'' [] = drop 4 n"
proof -
  have "prefix ''path'' n"
    using assms by (auto simp add: startsWith_def prefix_def)
  then have "replaceFirst n ''path'' [] = [] @ drop (length ''path'') n"
    by (rule replaceFirst_prefix)
  then show ?thesis by (simp add: eval_nat_numeral)
qed

lemma pathBranch_target:
  "pathBranch n current =
     (case specPathTarget (trim (replaceFirst n ''path'' [])) of
        None \<Rightarrow>
          \<lparr> response =
              (if length (split (trim (replaceFirst n ''path'' [])) CHR '','') \<noteq> 2
               then pathUsage else outOfBounds),
            nextState = current \<rparr>
      | Some (tx, ty) \<Rightarrow>
          \<lparr> response =
              ''Navigated directly to ('' @ numToString tx @ '', '' @ numToString ty @ '').'',
            nextState =
              current\<lparr> x := tx, y := ty, energy := clampEnergy (energy current - 10) \<rparr> \<rparr>)"
proof (cases "split (trim (replaceFirst n ''path'' [])) CHR '',''")
  case Nil
  then show ?thesis by (simp add: pathBranch_def specPathTarget_def)
next
  case (Cons a as)
  note outer = Cons
  show ?thesis
  proof (cases as)
    case Nil
    then show ?thesis using outer by (simp add: pathBranch_def specPathTarget_def)
  next
    case (Cons b bs)
    then show ?thesis
      using outer
      by (cases bs)
        (auto simp add: pathBranch_def specPathTarget_def GRID_SIZE_def split: option.split)
  qed
qed

text \<open>
  Claim C3, as amended. For every state and every ASCII input whose normalised form starts
  with "path ": when the remainder is not exactly two comma-separated parts that each begin
  with a decimal integer (what \<open>parseInt\<close> reads; text after the digits is ignored) in
  \<open>[0,6]\<close>, the response is the usage or the bounds message and the state is unchanged;
  otherwise the agent is placed on the target, 10 energy is deducted through the clamp
  and the response confirms. From the baseline "path 0,0" answers
  "Navigated directly to (0, 0)." with energy 70, and "path 9,9" answers with the bounds
  message, which mentions "out of bounds", and leaves the state as it is.
\<close>

theorem path_command:
  assumes ascii: "asciiText input"
    and start: "startsWith (toLowerCase (trim input)) ''path ''"
  shows "(case specPathTarget (trim (drop 4 (toLowerCase (trim input)))) of
            None \<Rightarrow>
              nextState (interpretCommand input current) = current \<and>
              (response (interpretCommand input current) = pathUsage \<or>
               response (interpretCommand input current) = outOfBounds)
          | Some (tx, ty) \<Rightarrow>
              interpretCommand input current =
                \<lparr> response =
                    ''Navigated directly to ('' @ numToString tx @ '', '' @
                    numToString ty @ '').'',
                  nextState =
                    current\<lparr> x := tx, y := ty,
                             energy := clampEnergy (energy current - 10) \<rparr> \<rparr>) \<and>
         interpretCommand ''path 0,0'' baseState =
           \<lparr> response = ''Navigated directly to (0, 0).'',
             nextState = baseState\<lparr> x := 0, y := 0, energy := 70 \<rparr> \<rparr> \<and>
         interpretCommand ''path 9,9'' baseState =
           \<lparr> response = outOfBounds, nextState = baseState \<rparr> \<and>
         includesStr outOfBounds ''out of bounds''"
proof -
  have "interpretCommand input current = pathBranch (toLowerCase (trim input)) current"
    using start by (rule dispatch_path)
  then have general: "case specPathTarget (trim (drop 4 (toLowerCase (trim input)))) of
            None \<Rightarrow>
              nextState (interpretCommand input current) = current \<and>
              (response (interpretCommand input current) = pathUsage \<or>
               response (interpretCommand input current) = outOfBounds)
          | Some (tx, ty) \<Rightarrow>
              interpretCommand input current =
                \<lparr> response =
                    ''Navigated directly to ('' @ numToString tx @ '', '' @
                    numToString ty @ '').'',
                  nextState =
                    current\<lparr> x := tx, y := ty,
                             energy := clampEnergy (energy current - 10) \<rparr> \<rparr>"
    by (simp add: pathBranch_target path_remainder [OF start] split: option.split)
  have origin: "interpretCommand ''path 0,0'' baseState =
           \<lparr> response = ''Navigated directly to (0, 0).'',
             nextState = baseState\<lparr> x := 0, y := 0, energy := 70 \<rparr> \<rparr>"
    by code_simp
  have outside: "interpretCommand ''path 9,9'' baseState =
           \<lparr> response = outOfBounds, nextState = baseState \<rparr>"
    by code_simp
  have mention: "includesStr outOfBounds ''out of bounds''"
    by code_simp
  from general origin outside mention show ?thesis by blast
qed

theorem path_command_witness:
  "asciiText '' Path 2, 5'' \<and> asciiText ''path north'' \<and>
   startsWith (toLowerCase (trim '' Path 2, 5'')) ''path '' \<and>
   specPathTarget (trim (drop 4 (toLowerCase (trim '' Path 2, 5'')))) = Some (2, 5) \<and>
   interpretCommand '' Path 2, 5'' baseState =
     \<lparr> response = ''Navigated directly to (2, 5).'',
       nextState = baseState\<lparr> x := 2, y := 5, energy := 70 \<rparr> \<rparr> \<and>
   startsWith (toLowerCase (trim ''path north'')) ''path '' \<and>
   specPathTarget (trim (drop 4 (toLowerCase (trim ''path north'')))) = None \<and>
   nextState (interpretCommand ''path north'' baseState) = baseState \<and>
   (response (interpretCommand ''path north'' baseState) = pathUsage \<or>
    response (interpretCommand ''path north'' baseState) = outOfBounds)"
proof -
  have a: "startsWith (toLowerCase (trim '' Path 2, 5'')) ''path ''"
    and b: "specPathTarget (trim (drop 4 (toLowerCase (trim '' Path 2, 5'')))) = Some (2, 5)"
    and c: "startsWith (toLowerCase (trim ''path north'')) ''path ''"
    and d: "specPathTarget (trim (drop 4 (toLowerCase (trim ''path north'')))) = None"
    and e: "asciiText '' Path 2, 5''"
    and f: "asciiText ''path north''"
    by code_simp+
  note placed =
    path_command [OF e a, of baseState, THEN conjunct1, unfolded b option.case prod.case]
  note refused = path_command [OF f c, of baseState, THEN conjunct1, unfolded d option.case]
  have "interpretCommand '' Path 2, 5'' baseState =
     \<lparr> response = ''Navigated directly to (2, 5).'',
       nextState = baseState\<lparr> x := 2, y := 5, energy := 70 \<rparr> \<rparr>"
    by (rule trans [OF placed]) code_simp
  with a b c d e f refused show ?thesis by blast
qed

text \<open>The claim as first stated fails under the reading that a part must be an integer
  and nothing else: "path 3abc,4" is not a pair of integers, and the agent is moved to
  (3,4) all the same.\<close>

theorem path_command_counterexample:
  "asciiText ''path 3abc,4'' \<and>
   startsWith (toLowerCase (trim ''path 3abc,4'')) ''path '' \<and>
   \<not> specIntegerPair (trim (drop 4 (toLowerCase (trim ''path 3abc,4'')))) \<and>
   interpretCommand ''path 3abc,4'' baseState =
     \<lparr> response = ''Navigated directly to (3, 4).'',
       nextState = baseState\<lparr> y := 4, energy := 70 \<rparr> \<rparr> \<and>
   nextState (interpretCommand ''path 3abc,4'' baseState) \<noteq> baseState"
  by code_simp

subsection \<open>Collecting and dropping\<close>

lemma dispatch_collect:
  assumes "startsWith (toLowerCase (trim input)) ''collect ''"
  shows "interpretCommand input current = collectBranch input current"
proof -
  obtain r where n: "toLowerCase (trim input) = ''collect '' @ r"
    using assms by (auto simp add: startsWith_def prefix_def)
  show ?thesis
    unfolding interpretCommand_def Let_def n by (simp add: startsWith_def)
qed

lemma dispatch_drop:
  assumes "startsWith (toLowerCase (trim input)) ''drop ''"
  shows "interpretCommand input current = dropBranch input current"
proof -
  obtain r where n: "toLowerCase (trim input) = ''drop '' @ r"
    using assms by (auto simp add: startsWith_def prefix_def)
  show ?thesis
    unfolding interpretCommand_def Let_def n by (simp add: startsWith_def)
qed

lemma lower_collect: "toLowerCase (''collect '' @ r) = ''collect '' @ toLowerCase r"
  by (simp add: toLowerCase_def lowerChar_def upperLetters_def lowerLetters_def)

lemma lower_drop: "toLowerCase (''drop '' @ r) = ''drop '' @ toLowerCase r"
  by (simp add: toLowerCase_def lowerChar_def upperLetters_def lowerLetters_def)

lemma trim_after_word:
  assumes "w \<noteq> []" and "\<not> isWhiteSpace (hd w)" and "trim item \<noteq> []"
  shows "trim (w @ item) = w @ trimEnd item"
proof -
  have "trimStart (w @ item) = w @ item"
    using assms(1,2) by (intro trimStart_keep) simp_all
  moreover have "\<not> list_all isWhiteSpace item"
    using assms(3) by (simp add: trim_empty_iff)
  ultimately show ?thesis
    by (simp add: trim_def trimEnd_append_keep)
qed

lemma collect_starts:
  assumes "trim item \<noteq> []"
  shows "startsWith (toLowerCase (trim (''collect '' @ item))) ''collect ''"
proof -
  have "trim (''collect '' @ item) = ''collect '' @ trimEnd item"
    using assms by (intro trim_after_word) (simp_all add: isWhiteSpace_def)
  then show ?thesis
    by (simp only: lower_collect startsWith_def) simp
qed

lemma drop_starts:
  assumes "trim item \<noteq> []"
  shows "startsWith (toLowerCase (trim (''drop '' @ item))) ''drop ''"
proof -
  have "trim (''drop '' @ item) = ''drop '' @ trimEnd item"
    using assms by (intro trim_after_word) (simp_all add: isWhiteSpace_def)
  then show ?thesis
    by (simp only: lower_drop startsWith_def) simp
qed

lemma trim_leading_space: "trim ('' '' @ item) = trim item"
  by (simp add: trim_def trimStart_def isWhiteSpace_def)

lemma collect_item:
  "trim (slice (''collect '' @ item) (indexOf (toLowerCase (''collect '' @ item)) ''collect'' + 7))
     = trim item"
proof -
  have "prefix ''collect'' (toLowerCase (''collect '' @ item))"
    by (simp only: lower_collect) simp
  then have "indexOf (toLowerCase (''collect '' @ item)) ''collect'' = 0"
    by (rule indexOf_prefix)
  then have "slice (''collect '' @ item)
      (indexOf (toLowerCase (''collect '' @ item)) ''collect'' + 7) = '' '' @ item"
    by (simp add: slice_def eval_nat_numeral)
  then show ?thesis by (simp only: trim_leading_space)
qed

lemma drop_item:
  "trim (slice (''drop '' @ item) (indexOf (toLowerCase (''drop '' @ item)) ''drop'' + 4))
     = trim item"
proof -
  have "prefix ''drop'' (toLowerCase (''drop '' @ item))"
    by (simp only: lower_drop) simp
  then have "indexOf (toLowerCase (''drop '' @ item)) ''drop'' = 0"
    by (rule indexOf_prefix)
  then have "slice (''drop '' @ item)
      (indexOf (toLowerCase (''drop '' @ item)) ''drop'' + 4) = '' '' @ item"
    by (simp add: slice_def eval_nat_numeral)
  then show ?thesis by (simp only: trim_leading_space)
qed

lemma interpret_collect:
  assumes "trim item \<noteq> []"
  shows "interpretCommand (''collect '' @ item) current =
     (if trim item \<in> set (inventory current) then
        \<lparr> response = ''Item '' @ dquote @ trim item @ dquote @ '' is already secured.'',
          nextState = current \<rparr>
      else
        \<lparr> response =
            ''Collected '' @ dquote @ trim item @ dquote @ '' and stored in inventory.'',
          nextState = current\<lparr> inventory := inventory current @ [trim item] \<rparr> \<rparr>)"
  using assms
  by (simp only: dispatch_collect [OF collect_starts [OF assms]] collectBranch_def Let_def
      collect_item if_False)

lemma interpret_drop:
  assumes "trim item \<noteq> []"
  shows "interpretCommand (''drop '' @ item) current =
     (if trim item \<notin> set (inventory current) then
        \<lparr> response = ''Inventory does not contain '' @ dquote @ trim item @ dquote @ ''.'',
          nextState = current \<rparr>
      else
        \<lparr> response = ''Released '' @ dquote @ trim item @ dquote @ '' from inventory.'',
          nextState =
            current\<lparr> inventory :=
              filter (\<lambda>entry. entry \<noteq> trim item) (inventory current) \<rparr> \<rparr>)"
  using assms
  by (simp only: dispatch_drop [OF drop_starts [OF assms]] dropBranch_def Let_def
      drop_item if_False)

lemma blank_collect:
  assumes "trim item = []"
  shows "interpretCommand (''collect '' @ item) current =
     \<lparr> response = fallbackResponse, nextState = current \<rparr>"
proof -
  have blank: "list_all isWhiteSpace item"
    using assms by (simp add: trim_empty_iff)
  have "trimStart (''collect '' @ item) = ''collect '' @ item"
    by (intro trimStart_keep) (simp_all add: isWhiteSpace_def)
  then have "trim (''collect '' @ item) = trimEnd ''collect ''"
    using blank by (simp only: trim_def trimEnd_append_blank)
  also have "\<dots> = ''collect''"
    by (simp add: trimEnd_def isWhiteSpace_def)
  finally have "trim (''collect '' @ item) = ''collect''" .
  then show ?thesis
    unfolding interpretCommand_def Let_def by (simp add: string_eval)
qed

lemma blank_drop:
  assumes "trim item = []"
  shows "interpretCommand (''drop '' @ item) current =
     \<lparr> response = fallbackResponse, nextState = current \<rparr>"
proof -
  have blank: "list_all isWhiteSpace item"
    using assms by (simp add: trim_empty_iff)
  have "trimStart (''drop '' @ item) = ''drop '' @ item"
    by (intro trimStart_keep) (simp_all add: isWhiteSpace_def)
  then have "trim (''drop '' @ item) = trimEnd ''drop ''"
    using blank by (simp only: trim_def trimEnd_append_blank)
  also have "\<dots> = ''drop''"
    by (simp add: trimEnd_def isWhiteSpace_def)
  finally have "trim (''drop '' @ item) = ''drop''" .
  then show ?thesis
    unfolding interpretCommand_def Let_def by (simp add: string_eval)
qed

text \<open>
  Claim C4, as amended. For every state and every ASCII item text whose trimmed form, the
  name that the rules store and compare, the inventory does not hold yet, "collect" of
  the item and then "drop" of it give back the state, and so the inventory, as it was.
  Collecting a name that is held and dropping one that is not are answered with an
  explanation and leave the state as it is.
\<close>

theorem collect_then_drop:
  assumes ascii: "asciiText item"
  shows
  "(trim item \<notin> set (inventory current) \<longrightarrow>
      nextState (interpretCommand (''drop '' @ item)
        (nextState (interpretCommand (''collect '' @ item) current))) = current \<and>
      inventory (nextState (interpretCommand (''drop '' @ item)
        (nextState (interpretCommand (''collect '' @ item) current)))) =
        inventory current) \<and>
   (trim item \<noteq> [] \<and> trim item \<in> set (inventory current) \<longrightarrow>
      interpretCommand (''collect '' @ item) current =
        \<lparr> response = ''Item '' @ dquote @ trim item @ dquote @ '' is already secured.'',
          nextState = current \<rparr>) \<and>
   (trim item \<noteq> [] \<and> trim item \<notin> set (inventory current) \<longrightarrow>
      interpretCommand (''drop '' @ item) current =
        \<lparr> response = ''Inventory does not contain '' @ dquote @ trim item @ dquote @ ''.'',
          nextState = current \<rparr>)"
proof (cases "trim item = []")
  case True
  then show ?thesis
    unfolding blank_collect [OF True] blank_drop [OF True] by simp
next
  case False
  have "nextState (interpretCommand (''drop '' @ item)
          (nextState (interpretCommand (''collect '' @ item) current))) = current"
    if absent: "trim item \<notin> set (inventory current)"
  proof -
    have "filter (\<lambda>entry. entry \<noteq> trim item) (inventory current) = inventory current"
      using absent by (auto simp add: filter_id_conv)
    then show ?thesis
      using absent unfolding interpret_collect [OF False] interpret_drop [OF False]
      by simp
  qed
  moreover have "trim item \<in> set (inventory current) \<longrightarrow>
      interpretCommand (''collect '' @ item) current =
        \<lparr> response = ''Item '' @ dquote @ trim item @ dquote @ '' is already secured.'',
          nextState = current \<rparr>"
    unfolding interpret_collect [OF False] by simp
  moreover have "trim item \<notin> set (inventory current) \<longrightarrow>
      interpretCommand (''drop '' @ item) current =
        \<lparr> response = ''Inventory does not contain '' @ dquote @ trim item @ dquote @ ''.'',
          nextState = current \<rparr>"
    unfolding interpret_drop [OF False] by simp
  ultimately show ?thesis by simp
qed

theorem collect_then_drop_witness:
  "asciiText ''Sample '' \<and>
   trim ''Sample '' \<noteq> [] \<and> trim ''Sample '' \<notin> set (inventory baseState) \<and>
   nextState (interpretCommand (''drop '' @ ''Sample '')
     (nextState (interpretCommand (''collect '' @ ''Sample '') baseState))) = baseState \<and>
   interpretCommand (''drop '' @ ''Sample '') baseState =
     \<lparr> response = ''Inventory does not contain '' @ dquote @ ''Sample'' @ dquote @ ''.'',
       nextState = baseState \<rparr> \<and>
   trim ''Sample '' \<in> set (inventory (baseState\<lparr> inventory := [''Sample''] \<rparr>)) \<and>
   interpretCommand (''collect '' @ ''Sample '') (baseState\<lparr> inventory := [''Sample''] \<rparr>) =
     \<lparr> response = ''Item '' @ dquote @ ''Sample'' @ dquote @ '' is already secured.'',
       nextState = baseState\<lparr> inventory := [''Sample''] \<rparr> \<rparr>"
proof -
  have name: "trim ''Sample '' \<noteq> []"
    and absent: "trim ''Sample '' \<notin> set (inventory baseState)"
    and held: "trim ''Sample '' \<in> set (inventory (baseState\<lparr> inventory := [''Sample''] \<rparr>))"
    and trimmed: "trim ''Sample '' = ''Sample''"
    and ascii: "asciiText ''Sample ''"
    by code_simp+
  note fresh = collect_then_drop [OF ascii, of baseState]
  note again = collect_then_drop [OF ascii, of "baseState\<lparr> inventory := [''Sample''] \<rparr>"]
  show ?thesis
    using ascii name absent held fresh again unfolding trimmed by blast
qed

text \<open>The claim as first stated, for every state, fails for a state that holds the item
  already: the collect is the duplicate no-op, and the drop then removes the item that
  was there before.\<close>

theorem collect_then_drop_counterexample:
  "asciiText ''sample'' \<and> trim ''sample'' = ''sample'' \<and>
   ''sample'' \<in> set (inventory (baseState\<lparr> inventory := [''sample''] \<rparr>)) \<and>
   interpretCommand ''collect sample'' (baseState\<lparr> inventory := [''sample''] \<rparr>) =
     \<lparr> response = ''Item '' @ dquote @ ''sample'' @ dquote @ '' is already secured.'',
       nextState = baseState\<lparr> inventory := [''sample''] \<rparr> \<rparr> \<and>
   inventory (nextState (interpretCommand ''drop sample''
     (nextState (interpretCommand ''collect sample''
        (baseState\<lparr> inventory := [''sample''] \<rparr>))))) = [] \<and>
   inventory (nextState (interpretCommand ''drop sample''
     (nextState (interpretCommand ''collect sample''
        (baseState\<lparr> inventory := [''sample''] \<rparr>))))) \<noteq>
     inventory (baseState\<lparr> inventory := [''sample''] \<rparr>)"
  by code_simp

subsection \<open>The argument of note, collect and drop\<close>

lemma interpretCommand_cases:
  assumes "P \<lparr> response = awaitingResponse, nextState = current \<rparr>"
    and "P \<lparr> response = helpResponse, nextState = current \<rparr>"
    and "P \<lparr> response = formatState current, nextState = current \<rparr>"
    and "startsWith (toLowerCase (trim input)) ''note '' \<Longrightarrow> P (noteBranch input current)"
    and "startsWith (toLowerCase (trim input)) ''collect '' \<Longrightarrow>
         P (collectBranch input current)"
    and "startsWith (toLowerCase (trim input)) ''drop '' \<Longrightarrow> P (dropBranch input current)"
    and "P (energyBranch (toLowerCase (trim input)) current)"
    and "P (pathBranch (toLowerCase (trim input)) current)"
    and "P \<lparr> response = resetResponse, nextState = baseState \<rparr>"
    and "P (restBranch current)"
    and "P (scanBranch current)"
    and "P (turnBranch (toLowerCase (trim input)) current)"
    and "P (moveBranch (toLowerCase (trim input)) current)"
    and "P \<lparr> response = fallbackResponse, nextState = current \<rparr>"
  shows "P (interpretCommand input current)"
  using assms unfolding interpretCommand_def Let_def
  by (simp only: if_distrib [of P] if_cancel simp_thms cong: if_cong)

lemma note_argument:
  assumes "startsWith (toLowerCase (trim input)) ''note ''"
  shows "trim (slice input (indexOf (toLowerCase input) ''note'' + 4)) \<noteq> []"
  using argument_not_empty [of "''note''" input] assms
  by (simp add: startsWith_def isWhiteSpace_def)

lemma collect_argument:
  assumes "startsWith (toLowerCase (trim input)) ''collect ''"
  shows "trim (slice input (indexOf (toLowerCase input) ''collect'' + 7)) \<noteq> []"
  using argument_not_empty [of "''collect''" input] assms
  by (simp add: startsWith_def isWhiteSpace_def)

lemma drop_argument:
  assumes "startsWith (toLowerCase (trim input)) ''drop ''"
  shows "trim (slice input (indexOf (toLowerCase input) ''drop'' + 4)) \<noteq> []"
  using argument_not_empty [of "''drop''" input] assms
  by (simp add: startsWith_def isWhiteSpace_def)

lemmas prompt_defs =
  isMissingArgumentPrompt_def notePrompt_def collectPrompt_def dropPrompt_def

lemma note_no_prompt:
  assumes "startsWith (toLowerCase (trim input)) ''note ''"
  shows "\<not> isMissingArgumentPrompt (response (noteBranch input current))"
  using note_argument [OF assms] by (simp add: noteBranch_def Let_def prompt_defs)

lemma collect_no_prompt:
  assumes "startsWith (toLowerCase (trim input)) ''collect ''"
  shows "\<not> isMissingArgumentPrompt (response (collectBranch input current))"
  using collect_argument [OF assms] by (simp add: collectBranch_def Let_def prompt_defs)

lemma drop_no_prompt:
  assumes "startsWith (toLowerCase (trim input)) ''drop ''"
  shows "\<not> isMissingArgumentPrompt (response (dropBranch input current))"
  using drop_argument [OF assms] by (simp add: dropBranch_def Let_def prompt_defs)

lemma energy_no_prompt: "\<not> isMissingArgumentPrompt (response (energyBranch n current))"
  by (simp add: energyBranch_def energyPrompt_def prompt_defs split: option.split)

lemma path_no_prompt: "\<not> isMissingArgumentPrompt (response (pathBranch n current))"
  by (simp add: pathBranch_def Let_def pathUsage_def outOfBounds_def prompt_defs
      split: option.split)

lemma rest_no_prompt: "\<not> isMissingArgumentPrompt (response (restBranch current))"
  by (simp add: restBranch_def Let_def prompt_defs)

lemma scan_no_prompt: "\<not> isMissingArgumentPrompt (response (scanBranch current))"
  by (simp add: scanBranch_def Let_def prompt_defs)

lemma turn_no_prompt: "\<not> isMissingArgumentPrompt (response (turnBranch n current))"
  by (simp add: turnBranch_def Let_def turnPrompt_def prompt_defs)

lemma move_no_prompt: "\<not> isMissingArgumentPrompt (response (moveBranch n current))"
  by (simp add: moveBranch_def Let_def boundaryResponse_def prompt_defs)

lemma fixed_no_prompt:
  "\<not> isMissingArgumentPrompt awaitingResponse"
  "\<not> isMissingArgumentPrompt helpResponse"
  "\<not> isMissingArgumentPrompt (formatState current)"
  "\<not> isMissingArgumentPrompt resetResponse"
  "\<not> isMissingArgumentPrompt fallbackResponse"
  by (simp_all add: awaitingResponse_def helpResponse_def formatState_def resetResponse_def
      fallbackResponse_def prompt_defs)

text \<open>
  Claim C10. When the trimmed, lower-cased input starts with "note " (or "collect ", or
  "drop "), the argument that the rule cuts out of the original input is not empty; so,
  whatever the input and the state, the response is none of the three prompts for a
  missing argument: the branches that return them are never taken.
\<close>

theorem missing_argument_unreachable:
  "(startsWith (toLowerCase (trim input)) ''note '' \<longrightarrow>
      trim (slice input (indexOf (toLowerCase input) ''note'' + 4)) \<noteq> []) \<and>
   (startsWith (toLowerCase (trim input)) ''collect '' \<longrightarrow>
      trim (slice input (indexOf (toLowerCase input) ''collect'' + 7)) \<noteq> []) \<and>
   (startsWith (toLowerCase (trim input)) ''drop '' \<longrightarrow>
      trim (slice input (indexOf (toLowerCase input) ''drop'' + 4)) \<noteq> []) \<and>
   \<not> isMissingArgumentPrompt (response (interpretCommand input current))"
proof -
  have "\<not> isMissingArgumentPrompt (response (interpretCommand input current))"
    by (rule interpretCommand_cases)
      (simp_all add: fixed_no_prompt note_no_prompt collect_no_prompt drop_no_prompt
        energy_no_prompt path_no_prompt rest_no_prompt scan_no_prompt turn_no_prompt
        move_no_prompt)
  then show ?thesis
    using note_argument collect_argument drop_argument by blast
qed

theorem missing_argument_unreachable_witness:
  "startsWith (toLowerCase (trim ''  Note  Check Seals  '')) ''note '' \<and>
   trim (slice ''  Note  Check Seals  ''
     (indexOf (toLowerCase ''  Note  Check Seals  '') ''note'' + 4)) \<noteq> [] \<and>
   startsWith (toLowerCase (trim ''collect x'')) ''collect '' \<and>
   trim (slice ''collect x'' (indexOf (toLowerCase ''collect x'') ''collect'' + 7)) \<noteq> [] \<and>
   startsWith (toLowerCase (trim ''DROP x'')) ''drop '' \<and>
   trim (slice ''DROP x'' (indexOf (toLowerCase ''DROP x'') ''drop'' + 4)) \<noteq> [] \<and>
   \<not> isMissingArgumentPrompt (response (interpretCommand ''note '' baseState))"
proof -
  have a: "startsWith (toLowerCase (trim ''  Note  Check Seals  '')) ''note ''"
    and b: "startsWith (toLowerCase (trim ''collect x'')) ''collect ''"
    and c: "startsWith (toLowerCase (trim ''DROP x'')) ''drop ''"
    by code_simp+
  show ?thesis
    using a b c
      missing_argument_unreachable [of "''  Note  Check Seals  ''" baseState]
      missing_argument_unreachable [of "''collect x''" baseState]
      missing_argument_unreachable [of "''DROP x''" baseState]
      missing_argument_unreachable [of "''note ''" baseState]
    by blast
qed

end
